theory Spec2Isabelle
  imports Main "HOL-Library.Multiset" "HOL-Library.AList"
begin

section \<open>Padel Buddy: the scheduling core of \<^verbatim>\<open>src/App.tsx\<close>\<close>

text \<open>
  The component \<^verbatim>\<open>App\<close> keeps its state in React hooks and defines its logic as closures
  over that state. The embedding below follows the source function by function. The
  dials (courts, duration, round length) and all indices hold integers; a JavaScript
  number that is not a finite integer arises only from a division by zero or from
  arithmetic on \<^verbatim>\<open>undefined\<close>, and those values are kept as constructors of their own.
  Strings are lists of 8-bit characters. Every object used as a dictionary is the
  association list of its own properties, in insertion order; it starts as \<^verbatim>\<open>{}\<close> and
  inherits from \<^verbatim>\<open>Object.prototype\<close>, which matters for the one key \<^verbatim>\<open>__proto__\<close>.
\<close>

subsection \<open>Numbers\<close>

datatype number = Num int | NaN | PosInf | NegInf

text \<open>\<^verbatim>\<open>Math.floor(x / d)\<close> for an integer divisor \<open>d\<close>.\<close>

fun floor_div :: "number \<Rightarrow> int \<Rightarrow> number" where
  "floor_div (Num a) d =
     (if d \<noteq> 0 then Num (a div d)
      else if 0 < a then PosInf else if a < 0 then NegInf else NaN)"
| "floor_div PosInf d = (if 0 \<le> d then PosInf else NegInf)"
| "floor_div NegInf d = (if 0 \<le> d then NegInf else PosInf)"
| "floor_div NaN d = NaN"

text \<open>\<^verbatim>\<open>x * d\<close> for an integer factor \<open>d\<close>.\<close>

fun times_int :: "number \<Rightarrow> int \<Rightarrow> number" where
  "times_int (Num a) d = Num (a * d)"
| "times_int PosInf d = (if 0 < d then PosInf else if d < 0 then NegInf else NaN)"
| "times_int NegInf d = (if 0 < d then NegInf else if d < 0 then PosInf else NaN)"
| "times_int NaN d = NaN"

text \<open>\<^verbatim>\<open>x < d\<close>: every comparison with \<^verbatim>\<open>NaN\<close> is false.\<close>

fun less_int :: "number \<Rightarrow> int \<Rightarrow> bool" where
  "less_int (Num a) d = (a < d)"
| "less_int NegInf d = True"
| "less_int PosInf d = False"
| "less_int NaN d = False"

text \<open>\<^verbatim>\<open>x - y\<close>.\<close>

fun minus_number :: "number \<Rightarrow> number \<Rightarrow> number" where
  "minus_number (Num a) (Num b) = Num (a - b)"
| "minus_number NaN y = NaN"
| "minus_number x NaN = NaN"
| "minus_number PosInf PosInf = NaN"
| "minus_number NegInf NegInf = NaN"
| "minus_number PosInf y = PosInf"
| "minus_number NegInf y = NegInf"
| "minus_number (Num a) PosInf = NegInf"
| "minus_number (Num a) NegInf = PosInf"

text \<open>The value a postfix \<^verbatim>\<open>++\<close> stores.\<close>

fun incr :: "number \<Rightarrow> number" where
  "incr (Num a) = Num (a + 1)"
| "incr x = x"

text \<open>A property read as a number: a missing property is \<^verbatim>\<open>undefined\<close>, which arithmetic
  turns into \<^verbatim>\<open>NaN\<close>.\<close>

definition to_number :: "number option \<Rightarrow> number" where
  "to_number v = (case v of None \<Rightarrow> NaN | Some x \<Rightarrow> x)"

subsection \<open>Strings and template literals\<close>

definition digit_char :: "nat \<Rightarrow> char" where
  "digit_char d = ''0123456789'' ! d"

fun show_nat :: "nat \<Rightarrow> string" where
  "show_nat n = (if n < 10 then [digit_char n] else show_nat (n div 10) @ [digit_char (n mod 10)])"

declare show_nat.simps [simp del]

definition show_int :: "int \<Rightarrow> string" where
  "show_int i = (if i < 0 then CHR ''-'' # show_nat (nat (- i)) else show_nat (nat i))"

subsection \<open>calculateRounds\<close>

definition calculateRounds :: "int \<Rightarrow> int \<Rightarrow> int \<Rightarrow> number" where
  "calculateRounds durationHours roundDuration courtCount =
     (let rounds = floor_div (Num (durationHours * 60)) roundDuration;
          rounds = times_int (floor_div rounds courtCount) courtCount
      in if less_int rounds courtCount then Num courtCount else rounds)"

subsection \<open>validatePlayers\<close>

definition validatePlayers :: "string list \<Rightarrow> int \<Rightarrow> string option" where
  "validatePlayers playerNames courtCount =
     (if length playerNames < 4 then
        Some (''Please enter at least 4 players. You entered ''
              @ show_nat (length playerNames) @ ''.'')
      else if courtCount < 1 then
        Some ''There must be at least 1 court.''
      else if int (length playerNames) < courtCount * 4 then
        Some (''You need at least '' @ show_int (courtCount * 4) @ '' players for ''
              @ show_int courtCount @ '' courts (4 per court).'')
      else if courtCount > int (length playerNames div 4) then
        Some (''Too many courts for the number of players. Max courts: ''
              @ show_nat (length playerNames div 4))
      else if card (set playerNames) \<noteq> length playerNames then
        Some ''Please ensure all player names are unique.''
      else None)"

text \<open>The rules of the roster validator as the specification words them: the violations,
  the first applicable one in the documented order, and the message of each.\<close>

datatype violation =
    InsufficientPlayers nat
  | InvalidCourtCount
  | InsufficientForCourts int int
  | TooManyCourts nat
  | DuplicateNames

definition first_violation :: "string list \<Rightarrow> int \<Rightarrow> violation option" where
  "first_violation names courtCount =
     (if length names < 4 then Some (InsufficientPlayers (length names))
      else if courtCount < 1 then Some InvalidCourtCount
      else if int (length names) < courtCount * 4
        then Some (InsufficientForCourts (courtCount * 4) courtCount)
      else if courtCount > int (length names div 4)
        then Some (TooManyCourts (length names div 4))
      else if \<not> distinct names then Some DuplicateNames
      else None)"

fun message :: "violation \<Rightarrow> string" where
  "message (InsufficientPlayers n) =
     ''Please enter at least 4 players. You entered '' @ show_nat n @ ''.''"
| "message InvalidCourtCount = ''There must be at least 1 court.''"
| "message (InsufficientForCourts m c) =
     ''You need at least '' @ show_int m @ '' players for '' @ show_int c
       @ '' courts (4 per court).''"
| "message (TooManyCourts m) =
     ''Too many courts for the number of players. Max courts: '' @ show_nat m"
| "message DuplicateNames = ''Please ensure all player names are unique.''"

subsection \<open>parsePlayers\<close>

text \<open>\<^verbatim>\<open>String.prototype.split\<close> on a separator class: an empty input gives one empty
  piece, and every separator starts a new piece.\<close>

fun split_on :: "(char \<Rightarrow> bool) \<Rightarrow> string \<Rightarrow> string list" where
  "split_on sep [] = [[]]"
| "split_on sep (c # cs) =
     (if sep c then [] # split_on sep cs
      else (case split_on sep cs of
              [] \<Rightarrow> [[c]]
            | piece # pieces \<Rightarrow> (c # piece) # pieces))"

definition is_separator :: "char \<Rightarrow> bool" where
  "is_separator c = (c = CHR '','' \<or> (of_char c :: nat) = 10)"

text \<open>The white space \<^verbatim>\<open>trim\<close> removes, as far as it fits in 8 bits: tab, line feed,
  vertical tab, form feed, carriage return, space and no-break space.\<close>

definition is_whitespace :: "char \<Rightarrow> bool" where
  "is_whitespace c = ((of_char c :: nat) \<in> set [9, 10, 11, 12, 13, 32, 160])"

definition trim :: "string \<Rightarrow> string" where
  "trim s = rev (dropWhile is_whitespace (rev (dropWhile is_whitespace s)))"

definition parsePlayers :: "string \<Rightarrow> string list" where
  "parsePlayers input =
     filter (\<lambda>name. length name > 0) (map (\<lambda>name. trim name) (split_on is_separator input))"

subsection \<open>Arrays\<close>

text \<open>\<^verbatim>\<open>Array.prototype.slice(start, end)\<close>: a negative index counts from the end, and
  both are clamped to the array.\<close>

definition slice :: "'a list \<Rightarrow> int \<Rightarrow> int \<Rightarrow> 'a list" where
  "slice xs start stop =
     (let len = int (length xs);
          k = (if start < 0 then max (len + start) 0 else min start len);
          final = (if stop < 0 then max (len + stop) 0 else min stop len)
      in take (nat (final - k)) (drop (nat k) xs))"

text \<open>\<^verbatim>\<open>slice(start)\<close>, to the end of the array.\<close>

definition slice_from :: "'a list \<Rightarrow> int \<Rightarrow> 'a list" where
  "slice_from xs start = slice xs start (int (length xs))"

text \<open>
  \<^verbatim>\<open>Array.prototype.sort(comparefn)\<close> is a stable sort: an element moves behind another one
  only where the comparator's result for the pair is positive (\<^verbatim>\<open>NaN\<close> counts as zero).
  It is modelled by stable insertion. Where the comparator is not consistent the language
  leaves the order to the implementation; the model then fixes one order.
\<close>

fun positive :: "number \<Rightarrow> bool" where
  "positive (Num v) = (0 < v)"
| "positive PosInf = True"
| "positive NegInf = False"
| "positive NaN = False"

fun insert_sorted :: "('a \<Rightarrow> 'a \<Rightarrow> number) \<Rightarrow> 'a \<Rightarrow> 'a list \<Rightarrow> 'a list" where
  "insert_sorted cmp x [] = [x]"
| "insert_sorted cmp x (y # ys) =
     (if positive (cmp x y) then y # insert_sorted cmp x ys else x # y # ys)"

definition array_sort :: "('a \<Rightarrow> 'a \<Rightarrow> number) \<Rightarrow> 'a list \<Rightarrow> 'a list" where
  "array_sort cmp xs = foldr (insert_sorted cmp) xs []"

text \<open>An assignment \<^verbatim>\<open>arr[i] = v\<close>: inside the array it overwrites, at or past the length
  it extends the array and leaves the slots between undefined (\<open>None\<close>); a negative
  index, or one that is no array index, adds a property and leaves the elements alone.\<close>

definition array_set :: "'a option list \<Rightarrow> int \<Rightarrow> 'a option \<Rightarrow> 'a option list" where
  "array_set arr i v =
     (if i < 0 \<or> 4294967295 \<le> i then arr
      else if i < int (length arr) then arr[nat i := v]
      else arr @ replicate (nat i - length arr) None @ [v])"

subsection \<open>shuffleArray\<close>

text \<open>
  \<^verbatim>\<open>Math.random\<close> is the only source of nondeterminism. It is an explicit stream of draws
  \<open>rnd\<close>: the next draw is \<open>rnd 0\<close>, and \<^verbatim>\<open>Math.floor(Math.random() * (i + 1))\<close>, an
  integer from 0 to \<open>i\<close>, is the draw reduced modulo \<open>i + 1\<close>. Every sequence of
  choices the code can make comes from some stream.
\<close>

type_synonym random = "nat \<Rightarrow> nat"

definition next_random :: "random \<Rightarrow> random" where
  "next_random rnd = (\<lambda>k. rnd (Suc k))"

text \<open>The loop \<^verbatim>\<open>for (let i = shuffled.length - 1; i > 0; i--)\<close>, entered with the value
  of \<open>i\<close>.\<close>

fun shuffle_loop :: "nat \<Rightarrow> 'a list \<Rightarrow> random \<Rightarrow> 'a list \<times> random" where
  "shuffle_loop 0 shuffled rnd = (shuffled, rnd)"
| "shuffle_loop (Suc i) shuffled rnd =
     (let j = rnd 0 mod (Suc i + 1);
          swapped = (shuffled[Suc i := shuffled ! j])[j := shuffled ! Suc i]
      in shuffle_loop i swapped (next_random rnd))"

definition shuffleArray :: "'a list \<Rightarrow> random \<Rightarrow> 'a list \<times> random" where
  "shuffleArray array rnd = shuffle_loop (length array - 1) array rnd"

subsection \<open>Objects as dictionaries\<close>

type_synonym 'v object = "(string \<times> 'v) list"

text \<open>
  The own property of an object under a key. A read \<^verbatim>\<open>obj[k]\<close> of a key that is no own
  property gives \<^verbatim>\<open>undefined\<close> or a member inherited from \<^verbatim>\<open>Object.prototype\<close> (for the
  key \<^verbatim>\<open>__proto__\<close> the prototype itself). The code uses what it reads in arithmetic
  only, where each of these is \<^verbatim>\<open>NaN\<close>: that is \<open>to_number\<close> of \<open>None\<close>.
\<close>

definition get_prop :: "'v object \<Rightarrow> string \<Rightarrow> 'v option" where
  "get_prop obj k = map_of obj k"

text \<open>
  An assignment \<^verbatim>\<open>obj[k] = v\<close> of a number. It creates or overwrites the own property,
  except under the key \<^verbatim>\<open>__proto__\<close>: unless the object has an own property of that
  name, the assignment reaches the setter inherited from \<^verbatim>\<open>Object.prototype\<close>, which
  ignores a value that is no object, and nothing is stored.
\<close>

definition set_prop :: "'v object \<Rightarrow> string \<Rightarrow> 'v \<Rightarrow> 'v object" where
  "set_prop obj k v =
     (if k = ''__proto__'' \<and> map_of obj k = None then obj else AList.update k v obj)"

text \<open>\<^verbatim>\<open>obj[player]++\<close>\<close>

definition bump :: "number object \<Rightarrow> string \<Rightarrow> number object" where
  "bump obj player = set_prop obj player (incr (to_number (get_prop obj player)))"

text \<open>\<^verbatim>\<open>Object.entries\<close> lists the keys that are array indices first, in increasing
  order, and then the other keys in insertion order.\<close>

definition is_digit :: "char \<Rightarrow> bool" where
  "is_digit c = (c \<in> set ''0123456789'')"

definition digit_value :: "char \<Rightarrow> nat" where
  "digit_value c = of_char c - 48"

definition nat_of_digits :: "string \<Rightarrow> nat" where
  "nat_of_digits k = foldl (\<lambda>n c. 10 * n + digit_value c) 0 k"

definition is_array_index :: "string \<Rightarrow> bool" where
  "is_array_index k =
     (k \<noteq> [] \<and> list_all is_digit k \<and> (k = ''0'' \<or> hd k \<noteq> CHR ''0'')
      \<and> nat_of_digits k < 4294967295)"

definition object_entries :: "'v object \<Rightarrow> (string \<times> 'v) list" where
  "object_entries obj =
     sort_key (\<lambda>e. nat_of_digits (fst e)) (filter (\<lambda>e. is_array_index (fst e)) obj)
     @ filter (\<lambda>e. \<not> is_array_index (fst e)) obj"

subsection \<open>The data model and the component's state\<close>

record Match =
  courts :: "string list list"
  resting :: "string list"

record Schedule =
  rounds :: "Match list"

datatype CourtWinner = Team1 | Team2 | Unset

text \<open>A cell of \<^verbatim>\<open>winners\<close> holds 1, 2 or \<^verbatim>\<open>null\<close>; \<open>None\<close> is a slot left undefined
  when a row was extended.\<close>

type_synonym ledger = "CourtWinner option list list"

record App =
  players :: "string list"
  playerInput :: string
  courtsSetting :: int
  duration :: int
  roundDuration :: int
  schedule :: "Schedule option"
  errorText :: string
  winners :: ledger
  numRounds :: number

definition initial_state :: App where
  "initial_state =
     \<lparr>players = [], playerInput = [], courtsSetting = 2, duration = 2, roundDuration = 15,
      schedule = None, errorText = [], winners = [], numRounds = Num 0\<rparr>"

subsection \<open>generateSchedule\<close>

text \<open>Every counter object starts with a zero for each name of the roster.\<close>

definition zero_counts :: "string list \<Rightarrow> number object" where
  "zero_counts names = fold (\<lambda>player obj. set_prop obj player (Num 0)) names []"

text \<open>The comparator \<^verbatim>\<open>(a, b) => playerStats[a] - playerStats[b]\<close>.\<close>

definition by_games_played :: "number object \<Rightarrow> string \<Rightarrow> string \<Rightarrow> number" where
  "by_games_played playerStats a b =
     minus_number (to_number (get_prop playerStats a)) (to_number (get_prop playerStats b))"

text \<open>The body of the loop over the rounds: it returns the round, the updated counters
  and the rest of the random stream.\<close>

definition play_round ::
  "string list \<Rightarrow> int \<Rightarrow> number object \<Rightarrow> random \<Rightarrow> Match \<times> number object \<times> random" where
  "play_round playerNames nCourts playerStats rnd =
     (let sortedPlayers = array_sort (by_games_played playerStats) playerNames;
          selectedPlayers = slice sortedPlayers 0 (nCourts * 4);
          restingPlayers = slice_from sortedPlayers (nCourts * 4);
          (shuffledSelected, rnd') = shuffleArray selectedPlayers rnd;
          courtAssignments =
            map (\<lambda>c. slice shuffledSelected (int c * 4) ((int c + 1) * 4)) [0 ..< nat nCourts];
          playerStats' = fold (\<lambda>player stats. bump stats player) selectedPlayers playerStats
      in (\<lparr>courts = courtAssignments, resting = restingPlayers\<rparr>, playerStats', rnd'))"

text \<open>The loop \<^verbatim>\<open>for (let round = 0; round < rounds; round++)\<close>, with the number of
  rounds still to play.\<close>

fun round_loop ::
  "string list \<Rightarrow> int \<Rightarrow> nat \<Rightarrow> Match list \<Rightarrow> number object \<Rightarrow> random
     \<Rightarrow> Match list \<times> number object \<times> random" where
  "round_loop playerNames nCourts 0 roundsArr playerStats rnd = (roundsArr, playerStats, rnd)"
| "round_loop playerNames nCourts (Suc n) roundsArr playerStats rnd =
     (case play_round playerNames nCourts playerStats rnd of
        (match, playerStats', rnd') \<Rightarrow>
          round_loop playerNames nCourts n (roundsArr @ [match]) playerStats' rnd')"

definition generateSchedule :: "string list \<Rightarrow> int \<Rightarrow> int \<Rightarrow> random \<Rightarrow> Schedule" where
  "generateSchedule playerNames nCourts nRounds rnd =
     (case round_loop playerNames nCourts (nat nRounds) [] (zero_counts playerNames) rnd of
        (roundsArr, playerStats, rnd') \<Rightarrow> \<lparr>rounds = roundsArr\<rparr>)"

subsection \<open>handleSubmit and handleRegenerate\<close>

datatype js_error = TypeError | RangeError

text \<open>A handler ends with a new state; or an exception escapes it, and the state then
  holds the updates the handler had made before; or it never returns (a round count of
  \<^verbatim>\<open>Infinity\<close> keeps the loop over the rounds running).\<close>

datatype outcome = Done App | Threw js_error App | Diverges

text \<open>\<^verbatim>\<open>Array(n)\<close> throws a \<^verbatim>\<open>RangeError\<close> unless \<open>n\<close> is an array length.\<close>

definition array_length_ok :: "int \<Rightarrow> bool" where
  "array_length_ok n = (0 \<le> n \<and> n < 4294967296)"

text \<open>\<^verbatim>\<open>Array(rounds).fill(null).map(() => Array(courts).fill(null))\<close>\<close>

definition fresh_winners :: "int \<Rightarrow> int \<Rightarrow> js_error + ledger" where
  "fresh_winners nRounds nCourts =
     (if \<not> array_length_ok nRounds then Inl RangeError
      else if 0 < nRounds \<and> \<not> array_length_ok nCourts then Inl RangeError
      else Inr (replicate (nat nRounds) (replicate (nat nCourts) (Some Unset))))"

text \<open>
  What both handlers do once the roster is accepted; \<open>st\<close> already holds the updates
  made before. The calls are \<^verbatim>\<open>setNumRounds\<close>, \<^verbatim>\<open>generateSchedule\<close>, \<^verbatim>\<open>setSchedule\<close> and
  \<^verbatim>\<open>setWinners\<close>, in this order, so when building the new ledger throws, the round
  count and the schedule are already replaced and the old ledger stays. With a round
  count that is no finite number the loop over the rounds either does not run at all
  (\<^verbatim>\<open>round < rounds\<close> is false) or never ends.
\<close>

definition install_schedule :: "App \<Rightarrow> string list \<Rightarrow> random \<Rightarrow> outcome" where
  "install_schedule st playerNames rnd =
     (case calculateRounds (duration st) (roundDuration st) (courtsSetting st) of
        PosInf \<Rightarrow> Diverges
      | Num n \<Rightarrow>
          (let newSchedule = generateSchedule playerNames (courtsSetting st) n rnd in
           case fresh_winners n (courtsSetting st) of
             Inl e \<Rightarrow> Threw e (st\<lparr>numRounds := Num n, schedule := Some newSchedule\<rparr>)
           | Inr table \<Rightarrow>
               Done (st\<lparr>numRounds := Num n, schedule := Some newSchedule, winners := table\<rparr>))
      | NaN \<Rightarrow>
          Threw RangeError (st\<lparr>numRounds := NaN, schedule := Some \<lparr>rounds = []\<rparr>\<rparr>)
      | NegInf \<Rightarrow>
          Threw RangeError (st\<lparr>numRounds := NegInf, schedule := Some \<lparr>rounds = []\<rparr>\<rparr>))"

definition handleSubmit :: "App \<Rightarrow> random \<Rightarrow> outcome" where
  "handleSubmit st rnd =
     (let playerNames = parsePlayers (playerInput st);
          validationError = validatePlayers playerNames (courtsSetting st)
      in case validationError of
           Some text \<Rightarrow>
             (if text \<noteq> [] then Done (st\<lparr>errorText := text\<rparr>)
              else install_schedule (st\<lparr>errorText := [], players := playerNames\<rparr>) playerNames rnd)
         | None \<Rightarrow>
             install_schedule (st\<lparr>errorText := [], players := playerNames\<rparr>) playerNames rnd)"

definition handleRegenerate :: "App \<Rightarrow> random \<Rightarrow> outcome" where
  "handleRegenerate st rnd =
     (if int (length (players st)) \<ge> courtsSetting st * 4
      then install_schedule st (players st) rnd
      else Done st)"

subsection \<open>Statistics\<close>

definition getPlayerStats :: "App \<Rightarrow> number object" where
  "getPlayerStats st =
     (case schedule st of
        None \<Rightarrow> []
      | Some sched \<Rightarrow>
          fold (\<lambda>round stats. fold (\<lambda>player stats. bump stats player) (concat (courts round)) stats)
            (rounds sched) (zero_counts (players st)))"

text \<open>The inner callback of \<open>getPlayerWins\<close>, for the cell \<open>winner\<close> at \<open>courtIdx\<close> of a round
  that the schedule has.\<close>

definition credit_court :: "Match \<Rightarrow> number object \<Rightarrow> nat \<times> CourtWinner option \<Rightarrow> number object" where
  "credit_court round wins cell =
     (case cell of (courtIdx, winner) \<Rightarrow>
        if courtIdx \<ge> length (courts round) then wins
        else if winner = Some Team1 then
          fold (\<lambda>player wins. bump wins player) (slice (courts round ! courtIdx) 0 2) wins
        else if winner = Some Team2 then
          fold (\<lambda>player wins. bump wins player) (slice (courts round ! courtIdx) 2 4) wins
        else wins)"

definition credit_round ::
  "Schedule \<Rightarrow> number object \<Rightarrow> nat \<times> CourtWinner option list \<Rightarrow> number object" where
  "credit_round sched wins row =
     (case row of (roundIdx, roundWinners) \<Rightarrow>
        if roundIdx \<ge> length (rounds sched) then wins
        else fold (\<lambda>cell wins. credit_court (rounds sched ! roundIdx) wins cell)
               (enumerate 0 roundWinners) wins)"

definition getPlayerWins :: "App \<Rightarrow> number object" where
  "getPlayerWins st =
     (case schedule st of
        None \<Rightarrow> []
      | Some sched \<Rightarrow>
          fold (\<lambda>row wins. credit_round sched wins row) (enumerate 0 (winners st))
            (zero_counts (players st)))"

definition getLeaderboard :: "App \<Rightarrow> (string \<times> number) list" where
  "getLeaderboard st =
     array_sort (\<lambda>a b. minus_number (snd b) (snd a)) (object_entries (getPlayerWins st))"

subsection \<open>setCourtWinner\<close>

text \<open>The updater passed to \<^verbatim>\<open>setWinners\<close>: with no row at \<open>roundIdx\<close> the assignment is
  one to a property of \<^verbatim>\<open>undefined\<close>, a \<^verbatim>\<open>TypeError\<close>.\<close>

definition update_winners :: "int \<Rightarrow> int \<Rightarrow> CourtWinner \<Rightarrow> ledger \<Rightarrow> js_error + ledger" where
  "update_winners roundIdx courtIdx winner prev =
     (let updated = map (\<lambda>arr. arr) prev in
      if roundIdx < 0 \<or> int (length updated) \<le> roundIdx then Inl TypeError
      else Inr (updated[nat roundIdx :=
                  array_set (updated ! nat roundIdx) courtIdx (Some winner)]))"

definition setCourtWinner :: "int \<Rightarrow> int \<Rightarrow> CourtWinner \<Rightarrow> App \<Rightarrow> js_error + App" where
  "setCourtWinner roundIdx courtIdx winner st =
     (case update_winners roundIdx courtIdx winner (winners st) of
        Inl e \<Rightarrow> Inl e
      | Inr updated \<Rightarrow> Inr (st\<lparr>winners := updated\<rparr>))"

subsection \<open>Notions used in the statements\<close>




text \<open>The players on court in a round, and the number of rounds among the first \<open>n\<close> of a
  schedule in which a player is on court.\<close>

definition assigned :: "Match \<Rightarrow> string list" where
  "assigned round = concat (courts round)"


text \<open>A round partitions the roster into the players on court and the resting ones, with
  the given number of courts of four players each.\<close>

definition well_formed_round :: "string list \<Rightarrow> int \<Rightarrow> Match \<Rightarrow> bool" where
  "well_formed_round names nCourts round =
     (mset (assigned round) + mset (resting round) = mset names
      \<and> length (courts round) = nat nCourts
      \<and> list_all (\<lambda>court. length court = 4) (courts round))"

text \<open>A roster of five, for the examples.\<close>

definition names5 :: "string list" where
  "names5 = [''A'', ''B'', ''C'', ''D'', ''E'']"

text \<open>A state with four players, one court and one round, as \<open>handleSubmit\<close> leaves
  it.\<close>

definition one_court_schedule :: Schedule where
  "one_court_schedule = \<lparr>rounds = [\<lparr>courts = [[''C'', ''D'', ''B'', ''A'']], resting = []\<rparr>]\<rparr>"

definition one_court_state :: App where
  "one_court_state =
     \<lparr>players = [''A'', ''B'', ''C'', ''D''], playerInput = ''A,B,C,D'', courtsSetting = 1,
      duration = 1, roundDuration = 60, schedule = Some one_court_schedule, errorText = [],
      winners = [[Some Unset]], numRounds = Num 1\<rparr>"

text \<open>A roster that fills one court and holds the name \<^verbatim>\<open>__proto__\<close>, and the state
  that \<open>handleSubmit\<close> reaches from it; a roster of five with that name.\<close>

definition proto_schedule :: Schedule where
  "proto_schedule = \<lparr>rounds = [\<lparr>courts = [[''C'', ''__proto__'', ''B'', ''A'']], resting = []\<rparr>]\<rparr>"

definition proto_state :: App where
  "proto_state =
     \<lparr>players = [''A'', ''B'', ''C'', ''__proto__''], playerInput = ''A,B,C,__proto__'',
      courtsSetting = 1, duration = 1, roundDuration = 60, schedule = Some proto_schedule,
      errorText = [], winners = [[Some Unset]], numRounds = Num 1\<rparr>"


text \<open>The state \<open>st'\<close> holds a schedule newly generated for \<open>names\<close> under the dials of
  \<open>st\<close>, and a ledger of as many rows as the schedule has rounds, each of as many cells
  as there are courts, every cell \<^verbatim>\<open>null\<close>.\<close>

definition regenerated :: "App \<Rightarrow> string list \<Rightarrow> random \<Rightarrow> App \<Rightarrow> bool" where
  "regenerated st names rnd st' =
     (\<exists>n. numRounds st' = Num n
        \<and> schedule st' = Some (generateSchedule names (courtsSetting st) n rnd)
        \<and> courtsSetting st' = courtsSetting st
        \<and> length (rounds (generateSchedule names (courtsSetting st) n rnd)) = nat n
        \<and> list_all (\<lambda>round. length (courts round) = nat (courtsSetting st))
             (rounds (generateSchedule names (courtsSetting st) n rnd))
        \<and> winners st' = replicate (nat n) (replicate (nat (courtsSetting st)) (Some Unset)))"












section \<open>Round count\<close>

text \<open>
  C3. For positive duration, round length and court count, \<open>calculateRounds\<close> is the
  larger of the court count and the raw round count \<open>floor (duration * 60 / length)\<close>
  rounded down to a multiple of the court count; \<open>calculateRounds 2 15 2\<close> is 8 and
  \<open>calculateRounds 1 50 3\<close> is 3.
\<close>

theorem calculateRounds_formula:
  "(0 < hours \<and> 0 < minutes \<and> 0 < nCourts \<longrightarrow>
      calculateRounds hours minutes nCourts =
        Num (max nCourts (((hours * 60) div minutes) div nCourts * nCourts)))
   \<and> calculateRounds 2 15 2 = Num 8
   \<and> calculateRounds 1 50 3 = Num 3"
  by (simp add: calculateRounds_def Let_def max_def)

theorem calculateRounds_formula_witness:
  "(0::int) < 3 \<and> (0::int) < 20 \<and> (0::int) < 4
   \<and> calculateRounds 3 20 4 = Num 8
   \<and> max (4::int) (((3 * 60) div 20) div 4 * 4) = 8"
  using calculateRounds_formula [of 3 20 4] by simp

section \<open>Roster validation\<close>

lemma card_set_eq_length: "(card (set xs) \<noteq> length xs) = (\<not> distinct xs)"
  using card_distinct distinct_card by metis

lemma validatePlayers_refines:
  "validatePlayers names nCourts = map_option message (first_violation names nCourts)"
  by (simp add: validatePlayers_def first_violation_def card_set_eq_length)

text \<open>
  C4. \<open>validatePlayers\<close> answers with no error exactly when no rule applies, and
  otherwise with the message of the first applicable rule in the order: fewer than four
  players, court count below one, fewer players than four per court, more courts than
  \<open>floor (players / 4)\<close>, a repeated name. Names are compared as they are given, case
  included; the caller \<open>parsePlayers\<close> hands them over trimmed. For the roster A, B, C
  and one court the answer is the first rule's message with the count 3; A, B, A, C is
  refused for the repeated name, while a, B, A, C is accepted.
\<close>

theorem validatePlayers_first_violation:
  "validatePlayers names nCourts = map_option message (first_violation names nCourts)
   \<and> validatePlayers [''A'', ''B'', ''C''] 1
       = Some ''Please enter at least 4 players. You entered 3.''
   \<and> first_violation [''A'', ''B'', ''C''] 1 = Some (InsufficientPlayers 3)
   \<and> validatePlayers [''A'', ''B'', ''A'', ''C''] 1
       = Some ''Please ensure all player names are unique.''
   \<and> validatePlayers [''a'', ''B'', ''A'', ''C''] 1 = None
   \<and> validatePlayers (parsePlayers '' a ,B,  A,C '') 1 = None"
proof -
  have general: "validatePlayers names nCourts
      = map_option message (first_violation names nCourts)"
    by (rule validatePlayers_refines)
  have three: "show_nat (length [''A'', ''B'', ''C'']) = ''3''"
    by (simp add: show_nat.simps [of "Suc (Suc (Suc 0))"] digit_char_def)
  have example: "validatePlayers [''A'', ''B'', ''C''] 1
      = Some ''Please enter at least 4 players. You entered 3.''"
    using three by (simp add: validatePlayers_def)
  have rule: "first_violation [''A'', ''B'', ''C''] 1 = Some (InsufficientPlayers 3)"
    by (simp add: first_violation_def)
  have duplicate: "validatePlayers [''A'', ''B'', ''A'', ''C''] 1
      = Some ''Please ensure all player names are unique.''"
    by (simp add: validatePlayers_refines first_violation_def)
  have cases_differ: "validatePlayers [''a'', ''B'', ''A'', ''C''] 1 = None"
    by (simp add: validatePlayers_refines first_violation_def)
  have parsed: "parsePlayers '' a ,B,  A,C '' = [''a'', ''B'', ''A'', ''C'']"
    by code_simp
  from general example rule duplicate cases_differ parsed show ?thesis by simp
qed

section \<open>Auxiliary facts\<close>

subsection \<open>Counter objects\<close>













subsection \<open>Sorting, slicing and shuffling\<close>

lemma mset_insert_sorted: "mset (insert_sorted cmp x ys) = add_mset x (mset ys)"
  by (induction ys) auto

lemma mset_array_sort: "mset (array_sort cmp xs) = mset xs"
  by (induction xs) (auto simp: array_sort_def mset_insert_sorted)





lemma slice_take: "0 \<le> k \<Longrightarrow> slice xs 0 k = take (nat k) xs"
  by (auto simp: slice_def Let_def min_def)

lemma slice_from_drop: "0 \<le> k \<Longrightarrow> slice_from xs k = drop (nat k) xs"
  by (auto simp: slice_from_def slice_def Let_def min_def)

lemma slice_chunk: "slice xs (int c * 4) ((int c + 1) * 4) = take 4 (drop (4 * c) xs)"
proof (cases "4 * c \<le> length xs")
  case True
  then show ?thesis
    by (auto simp: slice_def Let_def min_def nat_diff_distrib' nat_add_distrib
          nat_mult_distrib algebra_simps)
next
  case False
  then show ?thesis
    by (auto simp: slice_def Let_def min_def)
qed

lemma concat_chunks:
  "concat (map (\<lambda>c. take 4 (drop (4 * c) xs)) [0 ..< n]) = take (4 * n) xs"
proof (induction n)
  case 0
  show ?case by simp
next
  case (Suc n)
  have "take (4 + 4 * n) xs = take (4 * n + 4) xs"
    by (simp only: add.commute)
  also have "\<dots> = take (4 * n) xs @ take 4 (drop (4 * n) xs)"
    by (rule take_add)
  finally show ?case using Suc.IH by simp
qed

lemma shuffle_loop_mset:
  "i < length xs \<Longrightarrow> mset (fst (shuffle_loop i xs rnd)) = mset xs"
proof (induction i arbitrary: xs rnd)
  case 0
  show ?case by simp
next
  case (Suc i)
  let ?j = "rnd 0 mod (Suc i + 1)"
  have j: "?j < length xs"
    using Suc.prems by (simp add: less_le_trans [OF mod_less_divisor])
  have "mset ((xs[Suc i := xs ! ?j])[?j := xs ! Suc i]) = mset xs"
    using mset_swap [OF j Suc.prems] .
  then show ?case
    using Suc.IH [of "(xs[Suc i := xs ! ?j])[?j := xs ! Suc i]"] Suc.prems
    by (simp add: Let_def)
qed

lemma mset_shuffleArray: "mset (fst (shuffleArray xs rnd)) = mset xs"
  by (cases xs) (simp_all add: shuffleArray_def shuffle_loop_mset)

subsection \<open>One round\<close>

lemma slice_chunk': "slice xs (int c * 4) (int c * 4 + 4) = take 4 (drop (4 * c) xs)"
  using slice_chunk [of xs c] by (simp add: algebra_simps)

lemma play_round_parts:
  assumes "0 \<le> c"
  obtains sh rnd' where
    "mset sh = mset (take (4 * nat c) (array_sort (by_games_played stats) names))"
    "play_round names c stats rnd =
       (\<lparr>courts = map (\<lambda>i. take 4 (drop (4 * i) sh)) [0 ..< nat c],
         resting = drop (4 * nat c) (array_sort (by_games_played stats) names)\<rparr>,
        fold (\<lambda>player stats. bump stats player)
          (take (4 * nat c) (array_sort (by_games_played stats) names)) stats,
        rnd')"
proof -
  let ?sel = "take (4 * nat c) (array_sort (by_games_played stats) names)"
  obtain sh rnd' where sh: "shuffleArray ?sel rnd = (sh, rnd')"
    by (cases "shuffleArray ?sel rnd")
  have k: "nat (c * 4) = 4 * nat c" using assms by (simp add: nat_mult_distrib)
  have "mset sh = mset ?sel"
    using mset_shuffleArray [of ?sel rnd] sh by simp
  moreover have "play_round names c stats rnd =
       (\<lparr>courts = map (\<lambda>i. take 4 (drop (4 * i) sh)) [0 ..< nat c],
         resting = drop (4 * nat c) (array_sort (by_games_played stats) names)\<rparr>,
        fold (\<lambda>player stats. bump stats player) ?sel stats, rnd')"
    using assms sh by (simp add: play_round_def Let_def slice_take slice_from_drop slice_chunk' k)
  ultimately show thesis by (rule that)
qed

lemma play_round_assigned:
  assumes "0 \<le> c"
  shows "mset (assigned (fst (play_round names c stats rnd)))
           = mset (take (4 * nat c) (array_sort (by_games_played stats) names))"
proof -
  obtain sh rnd' where sh:
    "mset sh = mset (take (4 * nat c) (array_sort (by_games_played stats) names))"
    and pr: "play_round names c stats rnd =
       (\<lparr>courts = map (\<lambda>i. take 4 (drop (4 * i) sh)) [0 ..< nat c],
         resting = drop (4 * nat c) (array_sort (by_games_played stats) names)\<rparr>,
        fold (\<lambda>player stats. bump stats player)
          (take (4 * nat c) (array_sort (by_games_played stats) names)) stats,
        rnd')"
    using play_round_parts [OF assms] by blast
  have "length sh = length (take (4 * nat c) (array_sort (by_games_played stats) names))"
    using sh by (rule mset_eq_length)
  then have "length sh \<le> 4 * nat c" by simp
  then have "take (4 * nat c) sh = sh" by simp
  then show ?thesis using sh by (simp add: pr assigned_def concat_chunks)
qed

lemma play_round_resting:
  "0 \<le> c \<Longrightarrow> resting (fst (play_round names c stats rnd))
      = drop (4 * nat c) (array_sort (by_games_played stats) names)"
  by (rule play_round_parts [of c stats names rnd]) simp_all


lemma play_round_partition:
  assumes "0 \<le> c"
  shows "mset (assigned (fst (play_round names c stats rnd)))
           + mset (resting (fst (play_round names c stats rnd))) = mset names"
proof -
  have "mset (take (4 * nat c) (array_sort (by_games_played stats) names))
          + mset (drop (4 * nat c) (array_sort (by_games_played stats) names))
        = mset (array_sort (by_games_played stats) names)"
    by (simp flip: mset_append)
  then show ?thesis
    by (simp add: play_round_assigned [OF assms] play_round_resting [OF assms] mset_array_sort)
qed

lemma play_round_courts:
  assumes "0 \<le> c" "4 * nat c \<le> length names"
  shows "length (courts (fst (play_round names c stats rnd))) = nat c"
    and "\<forall>court \<in> set (courts (fst (play_round names c stats rnd))). length court = 4"
proof -
  obtain sh rnd' where sh:
    "mset sh = mset (take (4 * nat c) (array_sort (by_games_played stats) names))"
    and pr: "play_round names c stats rnd =
       (\<lparr>courts = map (\<lambda>i. take 4 (drop (4 * i) sh)) [0 ..< nat c],
         resting = drop (4 * nat c) (array_sort (by_games_played stats) names)\<rparr>,
        fold (\<lambda>player stats. bump stats player)
          (take (4 * nat c) (array_sort (by_games_played stats) names)) stats,
        rnd')"
    using play_round_parts [OF assms(1)] by blast
  show "length (courts (fst (play_round names c stats rnd))) = nat c"
    by (simp add: pr)
  have "length (array_sort (by_games_played stats) names) = length names"
    using mset_array_sort [of "by_games_played stats" names] by (rule mset_eq_length)
  moreover have "length sh = length (take (4 * nat c) (array_sort (by_games_played stats) names))"
    using sh by (rule mset_eq_length)
  ultimately have "length sh = 4 * nat c" using assms(2) by simp
  then show "\<forall>court \<in> set (courts (fst (play_round names c stats rnd))). length court = 4"
    by (auto simp: pr)
qed

section \<open>The rounds of a schedule\<close>

lemma round_loop_all:
  assumes "\<And>stats rnd. P (fst (play_round names c stats rnd))"
  shows "\<exists>ms. fst (round_loop names c n rs stats rnd) = rs @ ms \<and> length ms = n \<and> list_all P ms"
proof (induction n arbitrary: rs stats rnd)
  case 0
  show ?case by simp
next
  case (Suc n)
  obtain m stats' rnd' where pr: "play_round names c stats rnd = (m, stats', rnd')"
    by (cases "play_round names c stats rnd")
  have m: "P m" using assms [of stats rnd] pr by simp
  from Suc.IH [of "rs @ [m]" stats' rnd'] obtain ms
    where "fst (round_loop names c n (rs @ [m]) stats' rnd') = (rs @ [m]) @ ms"
      "length ms = n" "list_all P ms" by blast
  then have "fst (round_loop names c (Suc n) rs stats rnd) = rs @ (m # ms)
     \<and> length (m # ms) = Suc n \<and> list_all P (m # ms)"
    using pr m by simp
  then show ?case by blast
qed

lemma play_round_well_formed:
  "0 \<le> c \<Longrightarrow> 4 * nat c \<le> length names \<Longrightarrow>
   well_formed_round names c (fst (play_round names c stats rnd))"
  unfolding well_formed_round_def list_all_iff
  by (intro conjI play_round_partition play_round_courts)

lemma generateSchedule_rounds:
  assumes "0 \<le> c" "4 * nat c \<le> length names"
  shows "length (rounds (generateSchedule names c r rnd)) = nat r"
    and "list_all (well_formed_round names c) (rounds (generateSchedule names c r rnd))"
proof -
  obtain ms where ms:
    "fst (round_loop names c (nat r) [] (zero_counts names) rnd) = [] @ ms"
    "length ms = nat r" "list_all (well_formed_round names c) ms"
    using round_loop_all [of "well_formed_round names c" names c "nat r" "[]" "zero_counts names" rnd]
      play_round_well_formed [OF assms] by blast
  have "rounds (generateSchedule names c r rnd) = ms"
    using ms(1) by (cases "round_loop names c (nat r) [] (zero_counts names) rnd")
      (simp add: generateSchedule_def)
  then show "length (rounds (generateSchedule names c r rnd)) = nat r"
    and "list_all (well_formed_round names c) (rounds (generateSchedule names c r rnd))"
    using ms by simp_all
qed


lemma well_formed_round_distinct:
  assumes "well_formed_round names c round" "distinct names"
  shows "distinct (assigned round @ resting round)"
    and "\<forall>court \<in> set (courts round). distinct court"
    and "length (assigned round) = 4 * nat c"
proof -
  have "mset (assigned round @ resting round) = mset names"
    using assms(1) by (simp add: well_formed_round_def)
  then show d: "distinct (assigned round @ resting round)"
    using assms(2) mset_eq_imp_distinct_iff by blast
  then have "distinct (concat (courts round))" by (simp add: assigned_def)
  then show "\<forall>court \<in> set (courts round). distinct court"
    by (simp add: distinct_concat_iff)
  have "length (concat (courts round)) = sum_list (map length (courts round))"
    by (simp add: length_concat)
  also have "map length (courts round) = replicate (length (courts round)) 4"
    using assms(1) by (auto simp: well_formed_round_def list_all_iff intro: replicate_eqI)
  finally show "length (assigned round) = 4 * nat c"
    using assms(1) by (simp add: well_formed_round_def assigned_def sum_list_replicate)
qed

lemma example_schedule:
  "generateSchedule names5 1 2 (\<lambda>k. k) =
     \<lparr>rounds = [\<lparr>courts = [[''C'', ''D'', ''B'', ''A'']], resting = [''E'']\<rparr>,
                \<lparr>courts = [[''E'', ''B'', ''A'', ''C'']], resting = [''D'']\<rparr>]\<rparr>"
  by code_simp

text \<open>
  C2. For a roster of distinct names, at least one court, a round count that is not
  negative and at least four players per court, \<open>generateSchedule\<close> returns exactly
  that many rounds, and in every round the players on court together with the resting
  ones are the roster, each name once; there are exactly \<open>nCourts\<close> courts, each of
  four distinct players, so four times \<open>nCourts\<close> players are on court. This holds for
  every stream of random draws.
\<close>

theorem generateSchedule_partition:
  assumes "distinct names" "1 \<le> nCourts" "0 \<le> nRounds" "nCourts * 4 \<le> int (length names)"
  shows "length (rounds (generateSchedule names nCourts nRounds rnd)) = nat nRounds \<and>
    (\<forall>round \<in> set (rounds (generateSchedule names nCourts nRounds rnd)).
        mset (assigned round) + mset (resting round) = mset names
      \<and> distinct (assigned round @ resting round)
      \<and> length (courts round) = nat nCourts
      \<and> (\<forall>court \<in> set (courts round). length court = 4 \<and> distinct court)
      \<and> length (assigned round) = nat (nCourts * 4))"
proof -
  have c: "0 \<le> nCourts" and k: "4 * nat nCourts \<le> length names"
    using assms(2,4) by linarith+
  have n: "nat (nCourts * 4) = 4 * nat nCourts"
    using c by (simp add: nat_mult_distrib)
  let ?sched = "generateSchedule names nCourts nRounds rnd"
  have len: "length (rounds ?sched) = nat nRounds"
    by (rule generateSchedule_rounds(1) [OF c k])
  have each: "mset (assigned round) + mset (resting round) = mset names
      \<and> distinct (assigned round @ resting round)
      \<and> length (courts round) = nat nCourts
      \<and> (\<forall>court \<in> set (courts round). length court = 4 \<and> distinct court)
      \<and> length (assigned round) = nat (nCourts * 4)"
    if "round \<in> set (rounds ?sched)" for round
  proof -
    have wf: "well_formed_round names nCourts round"
      using generateSchedule_rounds(2) [OF c k, of nRounds rnd] that
      by (simp add: list_all_iff)
    have four: "\<forall>court \<in> set (courts round). length court = 4"
      using wf by (simp add: well_formed_round_def list_all_iff)
    show ?thesis
      using wf four well_formed_round_distinct [OF wf assms(1)] n
      by (simp add: well_formed_round_def)
  qed
  from len each show ?thesis by blast
qed

theorem generateSchedule_partition_witness:
  "distinct names5 \<and> (1::int) \<le> 1 \<and> (0::int) \<le> 2 \<and> (1::int) * 4 \<le> int (length names5)
   \<and> length (rounds (generateSchedule names5 1 2 (\<lambda>k. k))) = 2
   \<and> assigned (rounds (generateSchedule names5 1 2 (\<lambda>k. k)) ! 1) = [''E'', ''B'', ''A'', ''C'']
   \<and> resting (rounds (generateSchedule names5 1 2 (\<lambda>k. k)) ! 1) = [''D'']"
  using generateSchedule_partition [of names5 1 2 "\<lambda>k. k"]
  by (simp add: example_schedule assigned_def) (simp add: names5_def)

section \<open>Statistics without a schedule\<close>

text \<open>
  C9. While the schedule is absent, \<open>getPlayerStats\<close> and \<open>getPlayerWins\<close> return the
  empty object and \<open>getLeaderboard\<close> the empty list; none of them fails.
\<close>

theorem no_schedule_empty_results:
  "schedule st = None \<Longrightarrow>
     getPlayerStats st = [] \<and> getPlayerWins st = [] \<and> getLeaderboard st = []"
  by (simp add: getPlayerStats_def getPlayerWins_def getLeaderboard_def object_entries_def
        array_sort_def)

theorem no_schedule_empty_results_witness:
  "schedule initial_state = None \<and> getPlayerStats initial_state = []
   \<and> getPlayerWins initial_state = [] \<and> getLeaderboard initial_state = []"
  using no_schedule_empty_results [of initial_state] by (simp add: initial_state_def)

section \<open>Recording a winner\<close>

lemma one_court_state_reached:
  "handleSubmit (initial_state\<lparr>playerInput := ''A,B,C,D'', courtsSetting := 1, duration := 1,
      roundDuration := 60\<rparr>) (\<lambda>k. k) = Done one_court_state"
  by code_simp

lemma update_winners_cases:
  "(roundIdx < 0 \<or> int (length table) \<le> roundIdx \<longrightarrow>
      update_winners roundIdx courtIdx winner table = Inl TypeError)
   \<and> (0 \<le> roundIdx \<and> roundIdx < int (length table) \<and> (courtIdx < 0 \<or> 4294967295 \<le> courtIdx) \<longrightarrow>
      update_winners roundIdx courtIdx winner table = Inr table)
   \<and> (0 \<le> roundIdx \<and> roundIdx < int (length table) \<and> 0 \<le> courtIdx
        \<and> courtIdx < int (length (table ! nat roundIdx)) \<and> courtIdx < 4294967295 \<longrightarrow>
      update_winners roundIdx courtIdx winner table
        = Inr (table[nat roundIdx := (table ! nat roundIdx)[nat courtIdx := Some winner]]))
   \<and> (0 \<le> roundIdx \<and> roundIdx < int (length table)
        \<and> int (length (table ! nat roundIdx)) \<le> courtIdx \<and> courtIdx < 4294967295 \<longrightarrow>
      update_winners roundIdx courtIdx winner table
        = Inr (table[nat roundIdx := table ! nat roundIdx
                 @ replicate (nat courtIdx - length (table ! nat roundIdx)) None @ [Some winner]]))"
  by (simp add: update_winners_def array_set_def)

text \<open>
  C1, as the specification states it, does not hold: \<open>setCourtWinner\<close> checks no index.
  In a state with one round and one court, the court index 1 is outside the schedule,
  and the call extends the row to two cells without any error; the round index 1 makes
  the updater throw a \<^verbatim>\<open>TypeError\<close>.
\<close>

theorem setCourtWinner_grows_row:
  "schedule one_court_state = Some one_court_schedule
   \<and> length (rounds one_court_schedule) = 1
   \<and> length (courts (rounds one_court_schedule ! 0)) = 1
   \<and> winners one_court_state = [[Some Unset]]
   \<and> setCourtWinner 0 1 Team1 one_court_state
       = Inr (one_court_state\<lparr>winners := [[Some Unset, Some Team1]]\<rparr>)
   \<and> setCourtWinner 1 0 Team1 one_court_state = Inl TypeError"
  by (simp add: one_court_state_def one_court_schedule_def setCourtWinner_def update_winners_def
        array_set_def)

text \<open>
  C1, amended. With the round index outside the rows of the ledger \<open>setCourtWinner\<close>
  fails with a \<^verbatim>\<open>TypeError\<close> and installs no ledger. With the round index inside: a
  negative court index (or one that is no array index) leaves the state as it is; a
  court index inside the row overwrites that cell and keeps every dimension; a court
  index at or past the end of the row extends the row up to that index, the new last
  cell holding the winner and the cells between undefined.
\<close>

theorem setCourtWinner_unchecked:
  "(roundIdx < 0 \<or> int (length (winners st)) \<le> roundIdx \<longrightarrow>
      setCourtWinner roundIdx courtIdx winner st = Inl TypeError)
   \<and> (0 \<le> roundIdx \<and> roundIdx < int (length (winners st))
        \<and> (courtIdx < 0 \<or> 4294967295 \<le> courtIdx) \<longrightarrow>
      setCourtWinner roundIdx courtIdx winner st = Inr st)
   \<and> (0 \<le> roundIdx \<and> roundIdx < int (length (winners st)) \<and> 0 \<le> courtIdx
        \<and> courtIdx < int (length (winners st ! nat roundIdx)) \<and> courtIdx < 4294967295 \<longrightarrow>
      setCourtWinner roundIdx courtIdx winner st
        = Inr (st\<lparr>winners := (winners st)[nat roundIdx :=
                  (winners st ! nat roundIdx)[nat courtIdx := Some winner]]\<rparr>))
   \<and> (0 \<le> roundIdx \<and> roundIdx < int (length (winners st))
        \<and> int (length (winners st ! nat roundIdx)) \<le> courtIdx \<and> courtIdx < 4294967295 \<longrightarrow>
      setCourtWinner roundIdx courtIdx winner st
        = Inr (st\<lparr>winners := (winners st)[nat roundIdx := winners st ! nat roundIdx
                  @ replicate (nat courtIdx - length (winners st ! nat roundIdx)) None
                  @ [Some winner]]\<rparr>))"
  using update_winners_cases [of roundIdx "winners st" courtIdx winner]
  by (simp add: setCourtWinner_def)

theorem setCourtWinner_unchecked_witness:
  "(0::int) \<le> 0 \<and> (0::int) < int (length (winners one_court_state))
   \<and> int (length (winners one_court_state ! nat 0)) \<le> 1 \<and> (1::int) < 4294967295
   \<and> setCourtWinner 0 1 Team2 one_court_state
       = Inr (one_court_state\<lparr>winners := [[Some Unset, Some Team2]]\<rparr>)"
  using setCourtWinner_unchecked [of 0 one_court_state 1 Team2]
  by (simp add: one_court_state_def)

section \<open>Generating and regenerating\<close>

lemma validatePlayers_message: "validatePlayers names c = Some msg \<Longrightarrow> msg \<noteq> []"
  by (auto simp: validatePlayers_def split: if_splits)

lemma play_round_courts_length:
  "0 \<le> c \<Longrightarrow> length (courts (fst (play_round names c stats rnd))) = nat c"
  by (rule play_round_parts [of c stats names rnd]) simp_all

lemma generateSchedule_rounds_loop:
  "rounds (generateSchedule names c r rnd)
     = fst (round_loop names c (nat r) [] (zero_counts names) rnd)"
  by (cases "round_loop names c (nat r) [] (zero_counts names) rnd")
    (simp add: generateSchedule_def)

lemma generateSchedule_length:
  "length (rounds (generateSchedule names c r rnd)) = nat r"
  using round_loop_all [of "\<lambda>round. True" names c "nat r" "[]" "zero_counts names" rnd]
  by (auto simp: generateSchedule_rounds_loop)

lemma generateSchedule_dimensions:
  assumes "0 \<le> c"
  shows "list_all (\<lambda>round. length (courts round) = nat c) (rounds (generateSchedule names c r rnd))"
  using round_loop_all [of "\<lambda>round. length (courts round) = nat c" names c "nat r" "[]"
        "zero_counts names" rnd] play_round_courts_length [OF assms]
  by (auto simp: generateSchedule_rounds_loop)

lemma calculateRounds_positive:
  assumes "0 < d" "0 < r" "0 < c"
  shows "\<exists>n. calculateRounds d r c = Num n \<and> c \<le> n \<and> n \<le> max c (d * 60)"
proof -
  let ?raw = "(d * 60) div r"
  have raw: "0 \<le> ?raw"
    using assms by (simp add: pos_imp_zdiv_nonneg_iff)
  have "?raw \<le> (d * 60) div 1"
    using assms by (intro zdiv_mono2) simp_all
  then have raw_le: "?raw \<le> d * 60" by simp
  have "?raw div c * c + ?raw mod c = ?raw" by simp
  moreover have "0 \<le> ?raw mod c" using assms(3) by simp
  ultimately have "?raw div c * c \<le> ?raw" by linarith
  then show ?thesis using raw raw_le assms
    by (auto simp: calculateRounds_def Let_def max_def)
qed

text \<open>Within the ranges the dials allow, generation runs to its end and installs the new
  schedule together with the new ledger.\<close>

lemma install_schedule_regenerated:
  assumes "1 \<le> courtsSetting st" "courtsSetting st < 4294967296"
    "1 \<le> duration st" "duration st * 60 < 4294967296" "1 \<le> roundDuration st"
    "courtsSetting st0 = courtsSetting st"
  shows "\<exists>st'. install_schedule st names rnd = Done st' \<and> regenerated st0 names rnd st'"
proof -
  obtain n where n: "calculateRounds (duration st) (roundDuration st) (courtsSetting st) = Num n"
    "courtsSetting st \<le> n" "n \<le> max (courtsSetting st) (duration st * 60)"
    using calculateRounds_positive [of "duration st" "roundDuration st" "courtsSetting st"] assms
    by auto
  then have ok: "array_length_ok n" "array_length_ok (courtsSetting st)"
    using assms by (auto simp: array_length_ok_def max_def split: if_splits)
  let ?st' = "st\<lparr>numRounds := Num n,
      schedule := Some (generateSchedule names (courtsSetting st) n rnd),
      winners := replicate (nat n) (replicate (nat (courtsSetting st)) (Some Unset))\<rparr>"
  have ran: "install_schedule st names rnd = Done ?st'"
    using n(1) ok by (simp add: install_schedule_def Let_def fresh_winners_def)
  have c: "0 \<le> courtsSetting st" using assms(1) by simp
  have "regenerated st0 names rnd ?st'"
    unfolding regenerated_def
    using generateSchedule_length [of names "courtsSetting st" n rnd]
      generateSchedule_dimensions [OF c, of names n rnd] assms(6)
    by (intro exI [of _ n]) simp
  with ran show ?thesis by blast
qed

lemma regenerate_example:
  "handleRegenerate (one_court_state\<lparr>winners := [[Some Team1]]\<rparr>) (\<lambda>k. k) = Done one_court_state
   \<and> handleSubmit (one_court_state\<lparr>winners := [[Some Team1]]\<rparr>) (\<lambda>k. k) = Done one_court_state
   \<and> validatePlayers (parsePlayers (playerInput (one_court_state\<lparr>winners := [[Some Team1]]\<rparr>)))
        (courtsSetting (one_court_state\<lparr>winners := [[Some Team1]]\<rparr>)) = None
   \<and> courtsSetting (one_court_state\<lparr>winners := [[Some Team1]]\<rparr>) * 4
       \<le> int (length (players (one_court_state\<lparr>winners := [[Some Team1]]\<rparr>)))
   \<and> 1 \<le> courtsSetting (one_court_state\<lparr>winners := [[Some Team1]]\<rparr>)
   \<and> courtsSetting (one_court_state\<lparr>winners := [[Some Team1]]\<rparr>) < 4294967296
   \<and> 1 \<le> duration (one_court_state\<lparr>winners := [[Some Team1]]\<rparr>)
   \<and> duration (one_court_state\<lparr>winners := [[Some Team1]]\<rparr>) * 60 < 4294967296
   \<and> 1 \<le> roundDuration (one_court_state\<lparr>winners := [[Some Team1]]\<rparr>)
   \<and> winners one_court_state = [[Some Unset]]"
  by code_simp

text \<open>
  C8. With the dials in the ranges the form allows (at least one court, at least one
  hour, a round of at least one minute, all below the limit of an array length), both
  \<open>handleSubmit\<close> and \<open>handleRegenerate\<close> run to their end. When they replace the schedule
  (the roster passes validation, respectively the stored roster fills the courts), the
  same transition replaces the ledger by a table of as many rows as the new schedule has
  rounds, each of as many cells as there are courts, every cell \<^verbatim>\<open>null\<close>, whatever the
  ledger held before; otherwise both the schedule and the ledger stay as they were.
\<close>

theorem schedule_replaced_with_fresh_ledger:
  assumes "1 \<le> courtsSetting st" "courtsSetting st < 4294967296"
    "1 \<le> duration st" "duration st * 60 < 4294967296" "1 \<le> roundDuration st"
  shows "(\<exists>st'. handleSubmit st rnd = Done st'
        \<and> (if validatePlayers (parsePlayers (playerInput st)) (courtsSetting st) = None
            then regenerated st (parsePlayers (playerInput st)) rnd st'
            else schedule st' = schedule st \<and> winners st' = winners st))
   \<and> (\<exists>st'. handleRegenerate st rnd = Done st'
        \<and> (if courtsSetting st * 4 \<le> int (length (players st))
            then regenerated st (players st) rnd st'
            else schedule st' = schedule st \<and> winners st' = winners st))"
proof (intro conjI)
  let ?names = "parsePlayers (playerInput st)"
  show "\<exists>st'. handleSubmit st rnd = Done st'
        \<and> (if validatePlayers ?names (courtsSetting st) = None
            then regenerated st ?names rnd st'
            else schedule st' = schedule st \<and> winners st' = winners st)"
  proof (cases "validatePlayers ?names (courtsSetting st)")
    case None
    let ?st1 = "st\<lparr>errorText := [], players := ?names\<rparr>"
    have "\<exists>st'. install_schedule ?st1 ?names rnd = Done st' \<and> regenerated st ?names rnd st'"
      using assms by (intro install_schedule_regenerated) simp_all
    then show ?thesis using None by (simp add: handleSubmit_def Let_def)
  next
    case (Some msg)
    then have "msg \<noteq> []" by (rule validatePlayers_message)
    then have "handleSubmit st rnd = Done (st\<lparr>errorText := msg\<rparr>)"
      using Some by (simp add: handleSubmit_def Let_def)
    then show ?thesis using Some by simp
  qed
next
  show "\<exists>st'. handleRegenerate st rnd = Done st'
        \<and> (if courtsSetting st * 4 \<le> int (length (players st))
            then regenerated st (players st) rnd st'
            else schedule st' = schedule st \<and> winners st' = winners st)"
  proof (cases "courtsSetting st * 4 \<le> int (length (players st))")
    case True
    have "\<exists>st'. install_schedule st (players st) rnd = Done st'
        \<and> regenerated st (players st) rnd st'"
      using assms by (intro install_schedule_regenerated) simp_all
    then show ?thesis using True by (simp add: handleRegenerate_def)
  next
    case False
    then show ?thesis by (simp add: handleRegenerate_def)
  qed
qed

theorem schedule_replaced_with_fresh_ledger_witness:
  "1 \<le> courtsSetting (one_court_state\<lparr>winners := [[Some Team1]]\<rparr>)
   \<and> courtsSetting (one_court_state\<lparr>winners := [[Some Team1]]\<rparr>) < 4294967296
   \<and> 1 \<le> duration (one_court_state\<lparr>winners := [[Some Team1]]\<rparr>)
   \<and> duration (one_court_state\<lparr>winners := [[Some Team1]]\<rparr>) * 60 < 4294967296
   \<and> 1 \<le> roundDuration (one_court_state\<lparr>winners := [[Some Team1]]\<rparr>)
   \<and> handleSubmit (one_court_state\<lparr>winners := [[Some Team1]]\<rparr>) (\<lambda>k. k) = Done one_court_state
   \<and> regenerated (one_court_state\<lparr>winners := [[Some Team1]]\<rparr>)
        (parsePlayers (playerInput (one_court_state\<lparr>winners := [[Some Team1]]\<rparr>))) (\<lambda>k. k)
        one_court_state
   \<and> handleRegenerate (one_court_state\<lparr>winners := [[Some Team1]]\<rparr>) (\<lambda>k. k) = Done one_court_state
   \<and> regenerated (one_court_state\<lparr>winners := [[Some Team1]]\<rparr>)
        (players (one_court_state\<lparr>winners := [[Some Team1]]\<rparr>)) (\<lambda>k. k) one_court_state
   \<and> winners one_court_state = [[Some Unset]]"
  using schedule_replaced_with_fresh_ledger
      [of "one_court_state\<lparr>winners := [[Some Team1]]\<rparr>" "\<lambda>k. k"]
    regenerate_example
  by auto

text \<open>Outside those ranges the two updates can come apart: with no court at all the
  round count is \<^verbatim>\<open>NaN\<close>, the schedule is replaced by one without rounds, and building the
  ledger throws, so the old ledger stays.\<close>

lemma regenerate_without_courts:
  "handleRegenerate (one_court_state\<lparr>courtsSetting := 0\<rparr>) rnd
     = Threw RangeError (one_court_state\<lparr>courtsSetting := 0, numRounds := NaN,
         schedule := Some \<lparr>rounds = []\<rparr>\<rparr>)"
  by (simp add: handleRegenerate_def install_schedule_def calculateRounds_def one_court_state_def)

section \<open>Games played\<close>









lemma one_court_schedule_generated:
  "generateSchedule [''A'', ''B'', ''C'', ''D''] 1 1 (\<lambda>k. k) = one_court_schedule"
  by code_simp


lemma proto_state_reached:
  "handleSubmit (initial_state\<lparr>playerInput := ''A,B,C,__proto__'', courtsSetting := 1,
      duration := 1, roundDuration := 60\<rparr>) (\<lambda>k. k) = Done proto_state"
  by code_simp

lemma proto_state_counts:
  "getPlayerStats proto_state = [(''A'', Num 1), (''B'', Num 1), (''C'', Num 1)]"
  by code_simp



section \<open>Balance of the counters\<close>













section \<open>Ties in the selection\<close>





















section \<open>Wins\<close>





















lemma wins_proto_example:
  "getLeaderboard (proto_state\<lparr>winners := [[Some Team1]]\<rparr>)
     = [(''C'', Num 1), (''A'', Num 0), (''B'', Num 0)]"
  by code_simp




end
